theory Spec2Isabelle
  imports Complex_Main "HOL-Library.Word"
begin

section \<open>Python values\<close>

text \<open>
  A Python \<^verbatim>\<open>str\<close> is a sequence of Unicode code points, so it is modelled as a list of
  natural numbers, one per code point: \<^verbatim>\<open>len\<close>, slicing and \<^verbatim>\<open>strip\<close> count code points,
  not bytes. \<open>ascii\<close> embeds an ASCII literal. \<^verbatim>\<open>bytes\<close> is a list of octets.
\<close>

type_synonym pystr = "nat list"

type_synonym bytes = "8 word list"

definition ascii :: "string \<Rightarrow> pystr" where
  "ascii s = map of_char s"

text \<open>
  The values \<^verbatim>\<open>json.loads\<close> can return (the \<^verbatim>\<open>Any\<close> of \<^verbatim>\<open>Dict[str, Any]\<close>). A \<^verbatim>\<open>dict\<close> is an
  association list read with \<open>map_of\<close>; a float is a finite number, an infinity or NaN
  (\<^verbatim>\<open>json.loads\<close> accepts \<^verbatim>\<open>Infinity\<close> and \<^verbatim>\<open>NaN\<close>).
\<close>

datatype pyfloat = Finite real | PosInf | NegInf | NaN

datatype pyval =
    PyNone
  | PyBool bool
  | PyInt int
  | PyFloat pyfloat
  | PyStr pystr
  | PyList "pyval list"
  | PyDict "(pystr \<times> pyval) list"

type_synonym pydict = "(pystr \<times> pyval) list"

text \<open>Python's truth value of an object, as tested by \<^verbatim>\<open>if x\<close> and \<^verbatim>\<open>not x\<close>.\<close>

fun truthy :: "pyval \<Rightarrow> bool" where
  "truthy PyNone = False"
| "truthy (PyBool b) = b"
| "truthy (PyInt n) = (n \<noteq> 0)"
| "truthy (PyFloat f) = (f \<noteq> Finite 0)"
| "truthy (PyStr s) = (s \<noteq> [])"
| "truthy (PyList xs) = (xs \<noteq> [])"
| "truthy (PyDict kvs) = (kvs \<noteq> [])"

text \<open>\<^verbatim>\<open>d.get(k)\<close>: the value stored under \<open>k\<close>, \<^verbatim>\<open>None\<close> when the key is absent.\<close>

definition dict_get :: "pydict \<Rightarrow> pystr \<Rightarrow> pyval" where
  "dict_get d k = (case map_of d k of None \<Rightarrow> PyNone | Some v \<Rightarrow> v)"

section \<open>Exceptions and the services the pipeline calls\<close>

text \<open>
  A raised exception is a value. \<open>HTTPException\<close> carries its status code and detail;
  \<open>JSONDecodeError\<close> and \<open>PyException\<close> (any other exception) carry the text \<^verbatim>\<open>str(e)\<close>.
  A function that can raise returns \<open>exn + 'a\<close>, with \<open>Inl\<close> for the exception.
\<close>

datatype exn =
    HTTPException int pystr
  | JSONDecodeError pystr
  | PyException pystr

definition and_then :: "exn + 'a \<Rightarrow> ('a \<Rightarrow> exn + 'b) \<Rightarrow> exn + 'b" where
  "and_then r f = (case r of Inl e \<Rightarrow> Inl e | Inr x \<Rightarrow> f x)"

text \<open>The chat object built by \<^verbatim>\<open>LlmChat(...).with_model(...)\<close> (server.py, lines 97 to 113).\<close>

record LlmChat =
  chat_api_key :: pystr
  chat_session_id :: pystr
  chat_system_message :: pystr
  chat_provider :: pystr
  chat_model :: pystr

text \<open>
  The calls that leave the process, in the order they are made: reading the upload, the
  text extraction on the payload, the message to the language model. The functions of the
  pipeline return this trace with their result. Logging is not modelled.
\<close>

datatype event =
    ReadFile
  | ExtractPdf bytes
  | ExtractImage bytes
  | SendMessage LlmChat pystr

text \<open>
  The libraries and services are not part of the repository; they are parameters of the
  model. \<open>'page\<close> is PyPDF2's page object and \<open>'img\<close> is PIL's image object.
  \<^item> \<open>environ_OPENAI_API_KEY\<close>: \<^verbatim>\<open>os.environ.get('OPENAI_API_KEY')\<close>;
  \<^item> \<open>send_message\<close>: \<^verbatim>\<open>chat.send_message(UserMessage(text=...))\<close>, the reply or the exception;
  \<^item> \<open>json_loads\<close>: \<^verbatim>\<open>json.loads\<close>;
  \<^item> \<open>PdfReader_pages\<close>: \<^verbatim>\<open>PyPDF2.PdfReader(io.BytesIO(b)).pages\<close>; \<open>extract_text\<close>:
    \<^verbatim>\<open>page.extract_text()\<close>;
  \<^item> \<open>Image_open\<close>, \<open>image_mode\<close>, \<open>image_convert\<close>, \<open>image_to_string\<close>: \<^verbatim>\<open>Image.open\<close>,
    \<^verbatim>\<open>image.mode\<close>, \<^verbatim>\<open>image.convert\<close>, \<^verbatim>\<open>pytesseract.image_to_string\<close>;
  \<^item> \<open>uuid4_session\<close>, \<open>uuid4_id\<close>: the two \<^verbatim>\<open>str(uuid.uuid4())\<close> of a request; \<open>utcnow\<close>:
    \<^verbatim>\<open>datetime.utcnow()\<close>;
  \<^item> \<open>http_exception_str\<close>: \<^verbatim>\<open>str(e)\<close> of an \<^verbatim>\<open>HTTPException\<close>, which depends on the Starlette
    version;
  \<^item> \<open>pydantic_str\<close>: pydantic's validation of a value that is neither \<^verbatim>\<open>None\<close> nor a \<^verbatim>\<open>str\<close>
    for an \<^verbatim>\<open>Optional[str]\<close> field (coercion or \<^verbatim>\<open>ValidationError\<close>, by version).
\<close>

record ('page, 'img) env =
  environ_OPENAI_API_KEY :: "pystr option"
  send_message :: "LlmChat \<Rightarrow> pystr \<Rightarrow> exn + pystr"
  json_loads :: "pystr \<Rightarrow> exn + pyval"
  PdfReader_pages :: "bytes \<Rightarrow> exn + 'page list"
  extract_text :: "'page \<Rightarrow> exn + pystr"
  Image_open :: "bytes \<Rightarrow> exn + 'img"
  image_mode :: "'img \<Rightarrow> pystr"
  image_convert :: "'img \<Rightarrow> pystr \<Rightarrow> exn + 'img"
  image_to_string :: "'img \<Rightarrow> exn + pystr"
  uuid4_session :: pystr
  uuid4_id :: pystr
  utcnow :: int
  http_exception_str :: "int \<Rightarrow> pystr \<Rightarrow> pystr"
  pydantic_str :: "pyval \<Rightarrow> exn + pystr"

text \<open>\<^verbatim>\<open>str(e)\<close>, as interpolated into the detail at server.py, line 147.\<close>

definition str_exn :: "('page, 'img) env \<Rightarrow> exn \<Rightarrow> pystr" where
  "str_exn env e =
     (case e of
        HTTPException code detail \<Rightarrow> http_exception_str env code detail
      | JSONDecodeError msg \<Rightarrow> msg
      | PyException msg \<Rightarrow> msg)"

section \<open>Text extraction\<close>

text \<open>
  The loop of \<^verbatim>\<open>extract_text_from_pdf\<close> (server.py, lines 65 to 68): \<^verbatim>\<open>text\<close> starts empty and
  each page appends its text and a newline; an exception of a page ends the loop.
\<close>

fun pdf_pages_loop :: "('page \<Rightarrow> exn + pystr) \<Rightarrow> 'page list \<Rightarrow> pystr \<Rightarrow> exn + pystr" where
  "pdf_pages_loop ext [] text = Inr text"
| "pdf_pages_loop ext (page # pages) text =
     (case ext page of
        Inl e \<Rightarrow> Inl e
      | Inr t \<Rightarrow> pdf_pages_loop ext pages (text @ (t @ [10])))"

text \<open>
  \<^verbatim>\<open>extract_text_from_pdf\<close> (server.py, lines 61 to 71): whatever the \<^verbatim>\<open>try\<close> block raises
  becomes the HTTP 400 of the \<^verbatim>\<open>except\<close> clause.
\<close>

definition extract_text_from_pdf :: "('page, 'img) env \<Rightarrow> bytes \<Rightarrow> exn + pystr" where
  "extract_text_from_pdf env pdf_bytes =
     (case and_then (PdfReader_pages env pdf_bytes)
                    (\<lambda>pages. pdf_pages_loop (extract_text env) pages []) of
        Inl e \<Rightarrow> Inl (HTTPException 400 (ascii ''Failed to extract text from PDF''))
      | Inr text \<Rightarrow> Inr text)"

text \<open>\<^verbatim>\<open>extract_text_from_image\<close> (server.py, lines 73 to 86).\<close>

definition extract_text_from_image :: "('page, 'img) env \<Rightarrow> bytes \<Rightarrow> exn + pystr" where
  "extract_text_from_image env image_bytes =
     (case and_then (Image_open env image_bytes)
            (\<lambda>image. and_then (if image_mode env image \<noteq> ascii ''RGB''
                                then image_convert env image (ascii ''RGB'')
                                else Inr image)
            (\<lambda>image. image_to_string env image)) of
        Inl e \<Rightarrow> Inl (HTTPException 400 (ascii ''Failed to extract text from image''))
      | Inr text \<Rightarrow> Inr text)"

text \<open>
  \<^verbatim>\<open>str.strip()\<close> removes leading and trailing whitespace; \<open>isspace\<close> is the set of code
  points for which CPython's \<^verbatim>\<open>str.isspace\<close> holds.
\<close>

definition isspace :: "nat \<Rightarrow> bool" where
  "isspace c =
     ((9 \<le> c \<and> c \<le> 13) \<or> (28 \<le> c \<and> c \<le> 32) \<or> c = 0x85 \<or> c = 0xA0 \<or> c = 0x1680
      \<or> (0x2000 \<le> c \<and> c \<le> 0x200A) \<or> c = 0x2028 \<or> c = 0x2029 \<or> c = 0x202F
      \<or> c = 0x205F \<or> c = 0x3000)"

definition strip :: "pystr \<Rightarrow> pystr" where
  "strip s = rev (dropWhile isspace (rev (dropWhile isspace s)))"

section \<open>Field extraction\<close>

definition extraction_system_message :: pystr where
  "extraction_system_message =
     ascii ''You are a specialized document analyst for mortgage title insurance documents. ''
     @ [10] @ ascii ''            Your task is to extract specific information from title insurance or title policy documents.''
     @ [10] @ ascii ''            ''
     @ [10] @ ascii ''            Extract the following 6 key fields and return them in JSON format:''
     @ [10] @ ascii ''            1. effective_date: The policy effective date''
     @ [10] @ ascii ''            2. insured_party: The name of the insured party/parties''
     @ [10] @ ascii ''            3. underwriter: The insurance company/underwriter name''
     @ [10] @ ascii ''            4. legal_description: The legal description of the property''
     @ [10] @ ascii ''            5. exceptions: Any exceptions or exclusions listed''
     @ [10] @ ascii ''            6. policy_amount: The policy coverage amount''
     @ [10] @ ascii ''            ''
     @ [10] @ ascii ''            If any field is not found or unclear, return null for that field.''
     @ [10] @ ascii ''            Return ONLY valid JSON with these exact field names.''"

definition user_message_prefix :: pystr where
  "user_message_prefix =
     ascii ''Please analyze this title insurance document text and extract the 6 key fields in JSON format:''
     @ [10, 10]"

text \<open>
  \<^verbatim>\<open>re.search(r'\{.*\}', response, re.DOTALL)\<close> followed by \<^verbatim>\<open>.group()\<close>: the leftmost match
  starts at the first opening brace and, the star being greedy and the dot matching every
  character, ends at the last closing brace after it. \<open>None\<close> when there is no match.
\<close>

definition re_search_braces :: "pystr \<Rightarrow> pystr option" where
  "re_search_braces response =
     (case dropWhile (\<lambda>c. c \<noteq> 123) response of
        [] \<Rightarrow> None
      | brace # rest \<Rightarrow>
          (case dropWhile (\<lambda>c. c \<noteq> 125) (rev rest) of
             [] \<Rightarrow> None
           | close # before \<Rightarrow> Some (brace # rev (close # before))))"

text \<open>The fallback result of server.py, lines 136 to 143.\<close>

definition empty_result :: pydict where
  "empty_result =
     [(ascii ''effective_date'', PyNone),
      (ascii ''insured_party'', PyNone),
      (ascii ''underwriter'', PyNone),
      (ascii ''legal_description'', PyNone),
      (ascii ''exceptions'', PyNone),
      (ascii ''policy_amount'', PyNone)]"

text \<open>
  Parsing the reply (server.py, lines 123 to 143). Only a \<^verbatim>\<open>JSONDecodeError\<close> of the first
  \<^verbatim>\<open>json.loads\<close> enters the handler; the second \<^verbatim>\<open>json.loads\<close> runs inside the handler, so
  what it raises leaves the inner \<^verbatim>\<open>try\<close> statement.
\<close>

definition parse_response :: "('page, 'img) env \<Rightarrow> pystr \<Rightarrow> exn + pyval" where
  "parse_response env response =
     (case json_loads env response of
        Inr result \<Rightarrow> Inr result
      | Inl (JSONDecodeError msg) \<Rightarrow>
          (case re_search_braces response of
             Some json_match \<Rightarrow>
               (case json_loads env json_match of
                  Inr result \<Rightarrow> Inr result
                | Inl e \<Rightarrow> Inl e)
           | None \<Rightarrow> Inr (PyDict empty_result))
      | Inl e \<Rightarrow> Inl e)"

text \<open>The body of the \<^verbatim>\<open>try\<close> block of \<^verbatim>\<open>analyze_document_with_openai\<close> (lines 91 to 143).\<close>

definition analyze_document_with_openai_try ::
  "('page, 'img) env \<Rightarrow> pystr \<Rightarrow> pystr \<Rightarrow> event list \<times> (exn + pyval)" where
  "analyze_document_with_openai_try env extracted_text session_id =
     (case environ_OPENAI_API_KEY env of
        None \<Rightarrow> ([], Inl (HTTPException 500 (ascii ''OpenAI API key not configured'')))
      | Some openai_api_key \<Rightarrow>
          if openai_api_key = []
          then ([], Inl (HTTPException 500 (ascii ''OpenAI API key not configured'')))
          else
            (let chat = \<lparr>chat_api_key = openai_api_key, chat_session_id = session_id,
                         chat_system_message = extraction_system_message,
                         chat_provider = ascii ''openai'', chat_model = ascii ''gpt-4o-mini''\<rparr>;
                 user_message = user_message_prefix @ take 4000 extracted_text
             in ([SendMessage chat user_message],
                 and_then (send_message env chat user_message) (parse_response env))))"

text \<open>
  \<^verbatim>\<open>analyze_document_with_openai\<close> (server.py, lines 88 to 147): every exception of the body,
  the \<^verbatim>\<open>HTTPException\<close> of the missing key included, is replaced by an HTTP 500.
\<close>

definition analyze_document_with_openai ::
  "('page, 'img) env \<Rightarrow> pystr \<Rightarrow> pystr \<Rightarrow> event list \<times> (exn + pyval)" where
  "analyze_document_with_openai env extracted_text session_id =
     (case analyze_document_with_openai_try env extracted_text session_id of
        (trace, Inr result) \<Rightarrow> (trace, Inr result)
      | (trace, Inl e) \<Rightarrow>
          (trace, Inl (HTTPException 500 (ascii ''Failed to analyze document: '' @ str_exn env e))))"

section \<open>Compliance notes\<close>

text \<open>The seven note texts of \<^verbatim>\<open>generate_compliance_notes\<close> (server.py, lines 154 to 171).\<close>

definition note_effective_date :: pystr where
  "note_effective_date =
     [0x26A0, 0xFE0F] @ ascii '' Effective date not found - verify policy activation date''"

definition note_policy_amount :: pystr where
  "note_policy_amount =
     [0x26A0, 0xFE0F] @ ascii '' Policy amount not identified - confirm coverage limits''"

definition note_legal_description :: pystr where
  "note_legal_description =
     [0x26A0, 0xFE0F]
       @ ascii '' Legal description missing - property boundaries may need verification''"

definition note_exceptions_review :: pystr where
  "note_exceptions_review =
     [0x2713] @ ascii '' Policy exceptions identified - review for potential issues''"

definition note_standard_coverage :: pystr where
  "note_standard_coverage =
     [0x2139, 0xFE0F] @ ascii '' No exceptions listed - standard coverage applies''"

definition note_underwriter :: pystr where
  "note_underwriter = [0x2713] @ ascii '' Underwriter identified - policy issuer confirmed''"

definition note_reviewed :: pystr where
  "note_reviewed = [0x1F4CB] @ ascii '' Document processed - review all fields for accuracy''"

text \<open>
  \<^verbatim>\<open>generate_compliance_notes\<close> (server.py, lines 149 to 173). The list \<^verbatim>\<open>notes\<close> is threaded
  through the statements in source order; \<^verbatim>\<open>notes.append(x)\<close> is \<open>notes @ [x]\<close>.
\<close>

definition generate_compliance_notes :: "pydict \<Rightarrow> pystr list" where
  "generate_compliance_notes analysis_result =
     (let notes0 = [];
          notes1 = (if \<not> truthy (dict_get analysis_result (ascii ''effective_date''))
                    then notes0 @ [note_effective_date] else notes0);
          notes2 = (if \<not> truthy (dict_get analysis_result (ascii ''policy_amount''))
                    then notes1 @ [note_policy_amount] else notes1);
          notes3 = (if \<not> truthy (dict_get analysis_result (ascii ''legal_description''))
                    then notes2 @ [note_legal_description] else notes2);
          notes4 = (if truthy (dict_get analysis_result (ascii ''exceptions''))
                    then notes3 @ [note_exceptions_review]
                    else notes3 @ [note_standard_coverage]);
          notes5 = (if truthy (dict_get analysis_result (ascii ''underwriter''))
                    then notes4 @ [note_underwriter] else notes4);
          notes6 = notes5 @ [note_reviewed]
      in notes6)"

subsection \<open>The rule list of the specification\<close>

text \<open>
  The specification describes the generator as six independent rules, each mapping the
  field map to the notes it contributes, evaluated top to bottom with no early exit. A
  field is \<open>present\<close> when its value is truthy and \<open>missing\<close> otherwise, which is the test
  the generator applies.
\<close>

definition present :: "pydict \<Rightarrow> string \<Rightarrow> bool" where
  "present m field = truthy (dict_get m (ascii field))"

definition missing :: "pydict \<Rightarrow> string \<Rightarrow> bool" where
  "missing m field = (\<not> present m field)"

type_synonym rule = "pydict \<Rightarrow> pystr list"

definition rule1 :: rule where
  "rule1 m = (if missing m ''effective_date'' then [note_effective_date] else [])"

definition rule2 :: rule where
  "rule2 m = (if missing m ''policy_amount'' then [note_policy_amount] else [])"

definition rule3 :: rule where
  "rule3 m = (if missing m ''legal_description'' then [note_legal_description] else [])"

definition rule4 :: rule where
  "rule4 m = (if present m ''exceptions'' then [note_exceptions_review]
              else [note_standard_coverage])"

definition rule5 :: rule where
  "rule5 m = (if present m ''underwriter'' then [note_underwriter] else [])"

definition rule6 :: rule where
  "rule6 m = [note_reviewed]"

definition compliance_rules :: "rule list" where
  "compliance_rules = [rule1, rule2, rule3, rule4, rule5, rule6]"

definition notes_by_rules :: "pydict \<Rightarrow> pystr list" where
  "notes_by_rules m = concat (map (\<lambda>r. r m) compliance_rules)"

section \<open>The analysis endpoint\<close>

text \<open>The parts of FastAPI's \<^verbatim>\<open>UploadFile\<close> that \<^verbatim>\<open>analyze_document\<close> reads.\<close>

record UploadFile =
  file_size :: "int option"
  content_type :: "pystr option"
  file_read :: "exn + bytes"

text \<open>\<^verbatim>\<open>DocumentAnalysisResult\<close> (server.py, lines 45 to 55); \<open>id\<close> is a constant of HOL.\<close>

record DocumentAnalysisResult =
  id_field :: pystr
  effective_date :: "pystr option"
  insured_party :: "pystr option"
  underwriter :: "pystr option"
  legal_description :: "pystr option"
  exceptions :: "pystr option"
  policy_amount :: "pystr option"
  compliance_notes :: "pystr list"
  processing_status :: pystr
  timestamp :: int

definition allowed_types :: "pystr list" where
  "allowed_types =
     [ascii ''application/pdf'',
      ascii ''image/jpeg'', ascii ''image/jpg'', ascii ''image/png'', ascii ''image/tiff'',
      ascii ''image/bmp'']"

text \<open>Validation of one \<^verbatim>\<open>Optional[str]\<close> field by the model's constructor.\<close>

definition validate_optional_str :: "('page, 'img) env \<Rightarrow> pyval \<Rightarrow> exn + pystr option" where
  "validate_optional_str env v =
     (case v of
        PyNone \<Rightarrow> Inr None
      | PyStr s \<Rightarrow> Inr (Some s)
      | _ \<Rightarrow> and_then (pydantic_str env v) (\<lambda>s. Inr (Some s)))"

text \<open>
  The construction of the result (server.py, lines 223 to 232), with the defaults of the
  model for \<open>id\<close> and \<open>timestamp\<close>.
\<close>

definition create_result ::
  "('page, 'img) env \<Rightarrow> pydict \<Rightarrow> pystr list \<Rightarrow> exn + DocumentAnalysisResult" where
  "create_result env analysis_result notes =
     and_then (validate_optional_str env (dict_get analysis_result (ascii ''effective_date'')))
       (\<lambda>v1.
     and_then (validate_optional_str env (dict_get analysis_result (ascii ''insured_party'')))
       (\<lambda>v2.
     and_then (validate_optional_str env (dict_get analysis_result (ascii ''underwriter'')))
       (\<lambda>v3.
     and_then (validate_optional_str env (dict_get analysis_result (ascii ''legal_description'')))
       (\<lambda>v4.
     and_then (validate_optional_str env (dict_get analysis_result (ascii ''exceptions'')))
       (\<lambda>v5.
     and_then (validate_optional_str env (dict_get analysis_result (ascii ''policy_amount'')))
       (\<lambda>v6.
     Inr \<lparr>id_field = uuid4_id env,
          effective_date = v1, insured_party = v2, underwriter = v3,
          legal_description = v4, exceptions = v5, policy_amount = v6,
          compliance_notes = notes,
          processing_status = ascii ''completed'',
          timestamp = utcnow env\<rparr>))))))"

text \<open>
  Lines 219 to 237: the notes and the result, from what the field extraction returned. On
  a value that is not a \<^verbatim>\<open>dict\<close> the first \<^verbatim>\<open>.get\<close> raises \<^verbatim>\<open>AttributeError\<close>.
\<close>

definition assemble_result ::
  "('page, 'img) env \<Rightarrow> pyval \<Rightarrow> exn + DocumentAnalysisResult" where
  "assemble_result env analysis_result =
     (case analysis_result of
        PyDict d \<Rightarrow>
          (let notes = generate_compliance_notes d
           in create_result env d notes)
      | _ \<Rightarrow> Inl (PyException (ascii ''object has no attribute get'')))"

text \<open>
  Lines 216 to 237, after the text has been accepted: the session identifier, the field
  extraction, and the assembly of the result.
\<close>

definition analyze_text ::
  "('page, 'img) env \<Rightarrow> pystr \<Rightarrow> event list \<times> (exn + DocumentAnalysisResult)" where
  "analyze_text env extracted_text =
     (let session_id = uuid4_session env
      in case analyze_document_with_openai env extracted_text session_id of
           (trace, Inl e) \<Rightarrow> (trace, Inl e)
         | (trace, Inr analysis_result) \<Rightarrow> (trace, assemble_result env analysis_result))"

text \<open>Lines 203 to 208: the extractor is chosen by the declared media type.\<close>

definition extract_text_by_type ::
  "('page, 'img) env \<Rightarrow> pystr option \<Rightarrow> bytes \<Rightarrow> event \<times> (exn + pystr)" where
  "extract_text_by_type env ctype file_content =
     (if ctype = Some (ascii ''application/pdf'')
      then (ExtractPdf file_content, extract_text_from_pdf env file_content)
      else (ExtractImage file_content, extract_text_from_image env file_content))"

text \<open>The body of the \<^verbatim>\<open>try\<close> block of \<^verbatim>\<open>analyze_document\<close> (server.py, lines 184 to 237).\<close>

definition analyze_document_try ::
  "('page, 'img) env \<Rightarrow> UploadFile \<Rightarrow> event list \<times> (exn + DocumentAnalysisResult)" where
  "analyze_document_try env file =
     (if (case file_size file of None \<Rightarrow> False | Some n \<Rightarrow> n \<noteq> 0 \<and> n > 10 * 1024 * 1024)
      then ([], Inl (HTTPException 400 (ascii ''File size exceeds 10MB limit'')))
      else if (case content_type file of None \<Rightarrow> True | Some t \<Rightarrow> t \<notin> set allowed_types)
      then ([], Inl (HTTPException 400
                  (ascii ''Unsupported file type. Please upload PDF or image files.'')))
      else
        (case file_read file of
           Inl e \<Rightarrow> ([ReadFile], Inl e)
         | Inr file_content \<Rightarrow>
             (case extract_text_by_type env (content_type file) file_content of
                (call, Inl e) \<Rightarrow> ([ReadFile, call], Inl e)
              | (call, Inr extracted_text) \<Rightarrow>
                  if strip extracted_text = []
                  then ([ReadFile, call],
                        Inl (HTTPException 400
                          (ascii ''No text could be extracted from the document'')))
                  else (case analyze_text env extracted_text of
                          (trace, r) \<Rightarrow> ([ReadFile, call] @ trace, r)))))"

text \<open>
  \<^verbatim>\<open>analyze_document\<close> (server.py, lines 180 to 243): an \<^verbatim>\<open>HTTPException\<close> is raised again,
  any other exception becomes an HTTP 500.
\<close>

definition analyze_document ::
  "('page, 'img) env \<Rightarrow> UploadFile \<Rightarrow> event list \<times> (exn + DocumentAnalysisResult)" where
  "analyze_document env file =
     (case analyze_document_try env file of
        (trace, Inr result) \<Rightarrow> (trace, Inr result)
      | (trace, Inl (HTTPException code detail)) \<Rightarrow> (trace, Inl (HTTPException code detail))
      | (trace, Inl e) \<Rightarrow>
          (trace, Inl (HTTPException 500
                    (ascii ''Internal server error during document analysis''))))"

subsection \<open>What the specification calls a RawFieldMap\<close>

text \<open>
  A RawFieldMap maps each of the six field names to a string or to nothing: a \<^verbatim>\<open>dict\<close> in
  which each of the six keys is absent, \<^verbatim>\<open>None\<close> or a \<^verbatim>\<open>str\<close>. \<open>field_value\<close> is the entry
  of a field, \<open>None\<close> for an absent or null one.
\<close>

definition field_names :: "string list" where
  "field_names =
     [''effective_date'', ''insured_party'', ''underwriter'', ''legal_description'',
      ''exceptions'', ''policy_amount'']"

definition is_str_or_none :: "pyval \<Rightarrow> bool" where
  "is_str_or_none v = (case v of PyNone \<Rightarrow> True | PyStr s \<Rightarrow> True | _ \<Rightarrow> False)"

definition is_raw_field_map :: "pydict \<Rightarrow> bool" where
  "is_raw_field_map d = list_all (\<lambda>field. is_str_or_none (dict_get d (ascii field))) field_names"

definition field_value :: "pydict \<Rightarrow> string \<Rightarrow> pystr option" where
  "field_value d field = (case dict_get d (ascii field) of PyStr s \<Rightarrow> Some s | _ \<Rightarrow> None)"

text \<open>The size test of server.py, line 185, read as a predicate of the declared size.\<close>

definition within_size_limit :: "UploadFile \<Rightarrow> bool" where
  "within_size_limit file =
     (case file_size file of None \<Rightarrow> True | Some n \<Rightarrow> n \<le> 10 * 1024 * 1024)"

subsection \<open>Sample field maps\<close>

definition sample_fields :: pydict where
  "sample_fields =
     [(ascii ''effective_date'', PyStr (ascii ''January 15, 2024'')),
      (ascii ''insured_party'', PyNone),
      (ascii ''underwriter'', PyStr (ascii ''First American Title Insurance Company'')),
      (ascii ''legal_description'', PyNone),
      (ascii ''exceptions'', PyStr (ascii ''1. Easements of record'')),
      (ascii ''policy_amount'', PyStr (ascii ''$450,000.00''))]"

definition blank_fields :: pydict where
  "blank_fields =
     [(ascii ''effective_date'', PyStr []),
      (ascii ''exceptions'', PyStr []),
      (ascii ''policy_amount'', PyStr (ascii ''$1''))]"

section \<open>Sample services and requests\<close>

text \<open>
  Stand-ins for the services, for evaluating the pipeline on concrete requests. The
  language model always answers \<open>reply\<close>. The decoder knows one document: it returns
  \<open>sample_fields\<close> on \<open>sample_reply\<close>, as \<^verbatim>\<open>json.loads\<close> does, and raises \<^verbatim>\<open>JSONDecodeError\<close>
  on every other text, with the message of \<^verbatim>\<open>json.loads\<close> for the texts below; it is only
  applied to \<open>sample_reply\<close> and to texts that are not JSON. A PDF is the header \<^verbatim>\<open>%PDF\<close>
  followed by one octet per page, the text of a page being that character; an image is
  any non-empty payload, read octet by octet.
\<close>

definition sample_reply :: pystr where
  \<open>sample_reply =
     ascii ''{"effective_date": "January 15, 2024", "insured_party": null, ''
     @ ascii ''"underwriter": "First American Title Insurance Company", ''
     @ ascii ''"legal_description": null, "exceptions": "1. Easements of record", ''
     @ ascii ''"policy_amount": "$450,000.00"}''\<close>

definition prose_reply :: pystr where
  "prose_reply = ascii ''I could not find any of the fields in this document.''"

definition malformed_reply :: pystr where
  "malformed_reply = ascii ''Here is the result: {effective_date: unknown}''"

definition wrapped_reply :: pystr where
  "wrapped_reply = ascii ''Here is the JSON: '' @ sample_reply @ ascii '' Anything else?''"

definition sample_json_loads :: "pystr \<Rightarrow> exn + pyval" where
  "sample_json_loads s =
     (if s = sample_reply then Inr (PyDict sample_fields)
      else if s = ascii ''{effective_date: unknown}''
      then Inl (JSONDecodeError (ascii
        ''Expecting property name enclosed in double quotes: line 1 column 2 (char 1)''))
      else Inl (JSONDecodeError (ascii ''Expecting value: line 1 column 1 (char 0)'')))"

definition pdf_header :: bytes where
  "pdf_header = [0x25, 0x50, 0x44, 0x46]"

definition sample_pdf_pages :: "bytes \<Rightarrow> exn + pystr list" where
  "sample_pdf_pages b =
     (if take 4 b = pdf_header then Inr (map (\<lambda>octet. [unat octet]) (drop 4 b))
      else Inl (PyException (ascii ''EOF marker not found'')))"

definition sample_image_open :: "bytes \<Rightarrow> exn + bytes" where
  "sample_image_open b =
     (if b = [] then Inl (PyException (ascii ''cannot identify image file'')) else Inr b)"

definition sample_env :: "pystr \<Rightarrow> (pystr, bytes) env" where
  "sample_env reply =
     \<lparr>environ_OPENAI_API_KEY = Some (ascii ''sk-test''),
      send_message = (\<lambda>chat text. Inr reply),
      json_loads = sample_json_loads,
      PdfReader_pages = sample_pdf_pages,
      extract_text = Inr,
      Image_open = sample_image_open,
      image_mode = (\<lambda>image. ascii ''RGB''),
      image_convert = (\<lambda>image mode. Inr image),
      image_to_string = (\<lambda>image. Inr (map unat image)),
      uuid4_session = ascii ''session-1'',
      uuid4_id = ascii ''result-1'',
      utcnow = 1700000000,
      http_exception_str = (\<lambda>code detail. detail),
      pydantic_str = (\<lambda>v. Inl (PyException (ascii ''ValidationError'')))\<rparr>"

definition sample_chat :: LlmChat where
  "sample_chat =
     \<lparr>chat_api_key = ascii ''sk-test'', chat_session_id = ascii ''session-1'',
      chat_system_message = extraction_system_message,
      chat_provider = ascii ''openai'', chat_model = ascii ''gpt-4o-mini''\<rparr>"

text \<open>A two-page PDF with the pages \<^verbatim>\<open>H\<close> and \<^verbatim>\<open>i\<close>, a PDF with no page, a PDF with one blank page.\<close>

definition two_page_pdf :: bytes where
  "two_page_pdf = pdf_header @ [0x48, 0x69]"

definition zero_page_pdf :: bytes where
  "zero_page_pdf = pdf_header"

definition blank_page_pdf :: bytes where
  "blank_page_pdf = pdf_header @ [0x20]"

definition pdf_upload :: "int option \<Rightarrow> bytes \<Rightarrow> UploadFile" where
  "pdf_upload declared_size payload =
     \<lparr>file_size = declared_size, content_type = Some (ascii ''application/pdf''),
      file_read = Inr payload\<rparr>"

section \<open>Properties of the note generator\<close>

lemma notes_distinct:
  "distinct [note_effective_date, note_policy_amount, note_legal_description,
             note_exceptions_review, note_standard_coverage, note_underwriter, note_reviewed]"
  by (simp add: note_effective_date_def note_policy_amount_def note_legal_description_def
      note_exceptions_review_def note_standard_coverage_def note_underwriter_def
      note_reviewed_def ascii_def)

lemma sample_fields_get:
  "dict_get sample_fields (ascii ''effective_date'') = PyStr (ascii ''January 15, 2024'')"
  "dict_get sample_fields (ascii ''policy_amount'') = PyStr (ascii ''$450,000.00'')"
  "dict_get sample_fields (ascii ''legal_description'') = PyNone"
  "dict_get sample_fields (ascii ''exceptions'') = PyStr (ascii ''1. Easements of record'')"
  "dict_get sample_fields (ascii ''underwriter'')
     = PyStr (ascii ''First American Title Insurance Company'')"
  "dict_get sample_fields (ascii ''insured_party'') = PyNone"
  by (simp_all add: dict_get_def sample_fields_def ascii_def)

lemma blank_fields_get:
  "dict_get blank_fields (ascii ''effective_date'') = PyStr []"
  "dict_get blank_fields (ascii ''policy_amount'') = PyStr (ascii ''$1'')"
  "dict_get blank_fields (ascii ''legal_description'') = PyNone"
  "dict_get blank_fields (ascii ''exceptions'') = PyStr []"
  "dict_get blank_fields (ascii ''underwriter'') = PyNone"
  by (simp_all add: dict_get_def blank_fields_def ascii_def)

lemma ascii_nonempty [simp]: "(ascii s = []) = (s = [])"
  by (simp add: ascii_def)

text \<open>
  Claim C2. For every field map, the generator returns exactly the notes of the six rules
  of the specification, concatenated in rule order: missing effective date, missing policy
  amount, missing legal description, exceptions review or else standard coverage,
  underwriter confirmation, and the final reviewed note, with no early exit.
\<close>

theorem generate_compliance_notes_rules:
  "generate_compliance_notes m = notes_by_rules m
   \<and> notes_by_rules m = rule1 m @ rule2 m @ rule3 m @ rule4 m @ rule5 m @ rule6 m"
  by (simp add: generate_compliance_notes_def notes_by_rules_def compliance_rules_def
      rule1_def rule2_def rule3_def rule4_def rule5_def rule6_def missing_def present_def)

theorem generate_compliance_notes_rules_witness:
  "generate_compliance_notes sample_fields
     = [note_legal_description, note_exceptions_review, note_underwriter, note_reviewed]"
  using generate_compliance_notes_rules [of sample_fields]
  by (simp add: rule1_def rule2_def rule3_def rule4_def rule5_def rule6_def missing_def
      present_def sample_fields_get)

lemma generate_cong:
  assumes "\<forall>k \<in> set [ascii ''effective_date'', ascii ''policy_amount'', ascii ''legal_description'',
        ascii ''exceptions'', ascii ''underwriter'']. truthy (dict_get m k) = truthy (dict_get m' k)"
  shows "generate_compliance_notes m = generate_compliance_notes m'"
  using assms by (simp add: generate_compliance_notes_def)

lemma notes_neq:
  "note_exceptions_review \<noteq> note_effective_date"
  "note_exceptions_review \<noteq> note_policy_amount"
  "note_exceptions_review \<noteq> note_legal_description"
  "note_exceptions_review \<noteq> note_standard_coverage"
  "note_exceptions_review \<noteq> note_underwriter"
  "note_exceptions_review \<noteq> note_reviewed"
  "note_standard_coverage \<noteq> note_effective_date"
  "note_standard_coverage \<noteq> note_policy_amount"
  "note_standard_coverage \<noteq> note_legal_description"
  "note_standard_coverage \<noteq> note_exceptions_review"
  "note_standard_coverage \<noteq> note_underwriter"
  "note_standard_coverage \<noteq> note_reviewed"
  using notes_distinct by auto

lemma truthy_get_Cons:
  "truthy (dict_get ((k0, v) # m) k) = (if k = k0 then truthy v else truthy (dict_get m k))"
  by (simp add: dict_get_def)

text \<open>
  Claim C3. For every field map, the notes contain exactly one of the exceptions-review
  note and the standard-coverage note: their occurrences add up to one, the review note is
  there exactly when the exceptions field is present, and the standard-coverage note
  exactly when it is missing.
\<close>

theorem exceptions_note_exactly_one:
  "count_list (generate_compliance_notes m) note_exceptions_review
     + count_list (generate_compliance_notes m) note_standard_coverage = 1
   \<and> (note_exceptions_review \<in> set (generate_compliance_notes m)) = present m ''exceptions''
   \<and> (note_standard_coverage \<in> set (generate_compliance_notes m)) = missing m ''exceptions''"
  by (simp add: generate_compliance_notes_def present_def missing_def Let_def notes_neq
      notes_neq [symmetric])

theorem exceptions_note_exactly_one_witness:
  "count_list (generate_compliance_notes sample_fields) note_exceptions_review
     + count_list (generate_compliance_notes sample_fields) note_standard_coverage = 1
   \<and> note_exceptions_review \<in> set (generate_compliance_notes sample_fields)
   \<and> note_standard_coverage \<notin> set (generate_compliance_notes sample_fields)"
proof -
  have p: "present sample_fields ''exceptions''"
    by (simp add: present_def sample_fields_get)
  then have "\<not> missing sample_fields ''exceptions''"
    by (simp add: missing_def)
  with p exceptions_note_exactly_one [of sample_fields] show ?thesis
    by blast
qed

lemma note_membership:
  "(note_effective_date \<in> set (generate_compliance_notes m)) = missing m ''effective_date''"
  "(note_policy_amount \<in> set (generate_compliance_notes m)) = missing m ''policy_amount''"
  "(note_legal_description \<in> set (generate_compliance_notes m))
     = missing m ''legal_description''"
  "(note_exceptions_review \<in> set (generate_compliance_notes m)) = present m ''exceptions''"
  "(note_underwriter \<in> set (generate_compliance_notes m)) = present m ''underwriter''"
  using notes_distinct
  by (auto simp add: generate_compliance_notes_def Let_def missing_def present_def)

lemma generate_eq_iff:
  "(generate_compliance_notes m = generate_compliance_notes m')
     = (\<forall>field \<in> {''effective_date'', ''policy_amount'', ''legal_description'', ''exceptions'',
                    ''underwriter''}. present m field = present m' field)"
proof
  assume eq: "generate_compliance_notes m = generate_compliance_notes m'"
  have "missing m ''effective_date'' = missing m' ''effective_date''"
    using note_membership(1) [of m] note_membership(1) [of m'] eq by simp
  moreover have "missing m ''policy_amount'' = missing m' ''policy_amount''"
    using note_membership(2) [of m] note_membership(2) [of m'] eq by simp
  moreover have "missing m ''legal_description'' = missing m' ''legal_description''"
    using note_membership(3) [of m] note_membership(3) [of m'] eq by simp
  moreover have "present m ''exceptions'' = present m' ''exceptions''"
    using note_membership(4) [of m] note_membership(4) [of m'] eq by simp
  moreover have "present m ''underwriter'' = present m' ''underwriter''"
    using note_membership(5) [of m] note_membership(5) [of m'] eq by simp
  ultimately show "\<forall>field \<in> {''effective_date'', ''policy_amount'', ''legal_description'',
      ''exceptions'', ''underwriter''}. present m field = present m' field"
    by (simp add: missing_def)
next
  assume "\<forall>field \<in> {''effective_date'', ''policy_amount'', ''legal_description'', ''exceptions'',
                  ''underwriter''}. present m field = present m' field"
  then show "generate_compliance_notes m = generate_compliance_notes m'"
    by (intro generate_cong) (simp add: present_def)
qed

text \<open>
  Claim C9. The generator distinguishes truthy from falsy values of the five fields it
  inspects, and nothing else: two field maps get the same notes exactly when they agree on
  which of those fields are present, so a truthy value in place of a falsy one changes the
  notes, and each of the five conditional notes is in the result exactly when its field is
  missing (for the three warnings) or present (for the review and underwriter notes). A
  field holding the empty string is treated as one holding \<^verbatim>\<open>None\<close> and as an absent one;
  an empty-string effective date still produces the missing-effective-date warning, and
  an empty-string exceptions value produces the standard-coverage note and not the
  exceptions-review note.
\<close>

theorem empty_string_is_missing:
  "(generate_compliance_notes m = generate_compliance_notes m')
     = (\<forall>field \<in> {''effective_date'', ''policy_amount'', ''legal_description'', ''exceptions'',
                    ''underwriter''}. present m field = present m' field)
   \<and> (note_effective_date \<in> set (generate_compliance_notes m)) = missing m ''effective_date''
   \<and> (note_policy_amount \<in> set (generate_compliance_notes m)) = missing m ''policy_amount''
   \<and> (note_legal_description \<in> set (generate_compliance_notes m))
       = missing m ''legal_description''
   \<and> (note_exceptions_review \<in> set (generate_compliance_notes m)) = present m ''exceptions''
   \<and> (note_underwriter \<in> set (generate_compliance_notes m)) = present m ''underwriter''
   \<and> generate_compliance_notes ((k, PyStr []) # m) = generate_compliance_notes ((k, PyNone) # m)
   \<and> (map_of m k = None
      \<longrightarrow> generate_compliance_notes ((k, PyStr []) # m) = generate_compliance_notes m)
   \<and> (dict_get m (ascii ''effective_date'') = PyStr []
      \<longrightarrow> note_effective_date \<in> set (generate_compliance_notes m))
   \<and> (dict_get m (ascii ''exceptions'') = PyStr []
      \<longrightarrow> note_standard_coverage \<in> set (generate_compliance_notes m)
        \<and> note_exceptions_review \<notin> set (generate_compliance_notes m))"
proof (intro conjI impI)
  show "(generate_compliance_notes m = generate_compliance_notes m')
     = (\<forall>field \<in> {''effective_date'', ''policy_amount'', ''legal_description'', ''exceptions'',
                    ''underwriter''}. present m field = present m' field)"
    by (rule generate_eq_iff)
next
  show "(note_effective_date \<in> set (generate_compliance_notes m)) = missing m ''effective_date''"
    by (rule note_membership)
next
  show "(note_policy_amount \<in> set (generate_compliance_notes m)) = missing m ''policy_amount''"
    by (rule note_membership)
next
  show "(note_legal_description \<in> set (generate_compliance_notes m))
       = missing m ''legal_description''"
    by (rule note_membership)
next
  show "(note_exceptions_review \<in> set (generate_compliance_notes m)) = present m ''exceptions''"
    by (rule note_membership)
next
  show "(note_underwriter \<in> set (generate_compliance_notes m)) = present m ''underwriter''"
    by (rule note_membership)
next
  show "generate_compliance_notes ((k, PyStr []) # m) = generate_compliance_notes ((k, PyNone) # m)"
    by (intro generate_cong) (simp add: truthy_get_Cons)
next
  assume "map_of m k = None"
  then have "dict_get m k = PyNone" by (simp add: dict_get_def)
  then show "generate_compliance_notes ((k, PyStr []) # m) = generate_compliance_notes m"
    by (intro generate_cong) (auto simp add: truthy_get_Cons)
next
  assume "dict_get m (ascii ''effective_date'') = PyStr []"
  then show "note_effective_date \<in> set (generate_compliance_notes m)"
    by (simp add: generate_compliance_notes_def Let_def)
next
  assume e: "dict_get m (ascii ''exceptions'') = PyStr []"
  then show "note_standard_coverage \<in> set (generate_compliance_notes m)"
    by (simp add: generate_compliance_notes_def Let_def)
  from e show "note_exceptions_review \<notin> set (generate_compliance_notes m)"
    by (simp add: generate_compliance_notes_def Let_def notes_neq)
qed

theorem empty_string_is_missing_witness:
  "generate_compliance_notes blank_fields
     = generate_compliance_notes [(ascii ''policy_amount'', PyStr (ascii ''$1''))]
   \<and> generate_compliance_notes sample_fields \<noteq> generate_compliance_notes blank_fields
   \<and> note_effective_date \<notin> set (generate_compliance_notes sample_fields)
   \<and> note_underwriter \<in> set (generate_compliance_notes sample_fields)
   \<and> note_underwriter \<notin> set (generate_compliance_notes blank_fields)
   \<and> generate_compliance_notes ((ascii ''underwriter'', PyStr []) # blank_fields)
     = generate_compliance_notes blank_fields
   \<and> note_effective_date \<in> set (generate_compliance_notes blank_fields)
   \<and> note_standard_coverage \<in> set (generate_compliance_notes blank_fields)
   \<and> note_exceptions_review \<notin> set (generate_compliance_notes blank_fields)"
proof -
  have same: "\<forall>field \<in> {''effective_date'', ''policy_amount'', ''legal_description'',
      ''exceptions'', ''underwriter''}.
      present blank_fields field = present [(ascii ''policy_amount'', PyStr (ascii ''$1''))] field"
    by (simp add: present_def blank_fields_get) (simp add: dict_get_def ascii_def)
  have differ: "present sample_fields ''effective_date''
      \<noteq> present blank_fields ''effective_date''"
    by (simp add: present_def sample_fields_get blank_fields_get)
  have dated: "\<not> missing sample_fields ''effective_date''"
    by (simp add: missing_def present_def sample_fields_get)
  have named: "present sample_fields ''underwriter''"
    by (simp add: present_def sample_fields_get)
  have unnamed: "\<not> present blank_fields ''underwriter''"
    by (simp add: present_def blank_fields_get)
  have absent: "map_of blank_fields (ascii ''underwriter'') = None"
    by (simp add: blank_fields_def ascii_def)
  note t = empty_string_is_missing [of blank_fields
      "[(ascii ''policy_amount'', PyStr (ascii ''$1''))]" "ascii ''underwriter''"]
  note u = empty_string_is_missing [of sample_fields blank_fields "ascii ''underwriter''"]
  from t same have c1: "generate_compliance_notes blank_fields
      = generate_compliance_notes [(ascii ''policy_amount'', PyStr (ascii ''$1''))]"
    by blast
  from u differ have c2:
    "generate_compliance_notes sample_fields \<noteq> generate_compliance_notes blank_fields"
    by blast
  from u dated have c3: "note_effective_date \<notin> set (generate_compliance_notes sample_fields)"
    by blast
  from u named have c4: "note_underwriter \<in> set (generate_compliance_notes sample_fields)"
    by blast
  from t unnamed have c5: "note_underwriter \<notin> set (generate_compliance_notes blank_fields)"
    by blast
  from t absent have c6:
    "generate_compliance_notes ((ascii ''underwriter'', PyStr []) # blank_fields)
      = generate_compliance_notes blank_fields"
    by blast
  from t blank_fields_get(1) have c7:
    "note_effective_date \<in> set (generate_compliance_notes blank_fields)"
    by blast
  from t blank_fields_get(4) have c8:
    "note_standard_coverage \<in> set (generate_compliance_notes blank_fields)
     \<and> note_exceptions_review \<notin> set (generate_compliance_notes blank_fields)"
    by blast
  from c1 c2 c3 c4 c5 c6 c7 c8 show ?thesis by blast
qed

section \<open>Properties of the analysis endpoint\<close>

lemma and_then_simps [simp]:
  "and_then (Inl e) f = Inl e"
  "and_then (Inr x) f = f x"
  by (simp_all add: and_then_def)

lemma size_guard:
  "(case file_size file of None \<Rightarrow> False | Some n \<Rightarrow> n \<noteq> 0 \<and> n > 10 * 1024 * 1024)
     = (\<not> within_size_limit file)"
  by (auto simp add: within_size_limit_def split: option.splits)

lemma strip_empty: "(strip s = []) = (\<forall>c \<in> set s. isspace c)"
proof (cases "\<forall>c \<in> set s. isspace c")
  case True
  then have "dropWhile isspace s = []"
    by simp
  with True show ?thesis
    by (simp add: strip_def del: dropWhile_eq_Nil_conv)
next
  case False
  then have ne: "dropWhile isspace s \<noteq> []"
    by simp
  then have "\<not> isspace (hd (dropWhile isspace s))"
    by (rule hd_dropWhile)
  moreover from ne have "hd (dropWhile isspace s) \<in> set (rev (dropWhile isspace s))"
    by simp
  ultimately have "dropWhile isspace (rev (dropWhile isspace s)) \<noteq> []"
    by (auto simp add: dropWhile_eq_Nil_conv)
  with False show ?thesis
    by (simp add: strip_def del: dropWhile_eq_Nil_conv)
qed

lemma messages_distinct:
  "ascii ''File size exceeds 10MB limit''
     \<noteq> ascii ''Unsupported file type. Please upload PDF or image files.''"
  by (simp add: ascii_def)

text \<open>
  Claim C5. A request whose declared size exceeds 10 MiB is rejected with the size error
  (HTTP 400) and an empty trace: the file is not read, no text extraction runs and no
  message is sent to the extraction service.
\<close>

theorem oversized_rejected_before_any_call:
  assumes "file_size file = Some n" and "10 * 1024 * 1024 < n"
  shows "analyze_document env file
           = ([], Inl (HTTPException 400 (ascii ''File size exceeds 10MB limit'')))"
  using assms by (simp add: analyze_document_def analyze_document_try_def)

theorem oversized_rejected_before_any_call_witness:
  "analyze_document (sample_env sample_reply) (pdf_upload (Some 10485761) two_page_pdf)
     = ([], Inl (HTTPException 400 (ascii ''File size exceeds 10MB limit'')))"
  using oversized_rejected_before_any_call [of "pdf_upload (Some 10485761) two_page_pdf" 10485761
      "sample_env sample_reply"]
  by (simp add: pdf_upload_def)


lemma sample_env_sel [simp]:
  "environ_OPENAI_API_KEY (sample_env reply) = Some (ascii ''sk-test'')"
  "send_message (sample_env reply) = (\<lambda>chat text. Inr reply)"
  "json_loads (sample_env reply) = sample_json_loads"
  "PdfReader_pages (sample_env reply) = sample_pdf_pages"
  "extract_text (sample_env reply) = Inr"
  "uuid4_session (sample_env reply) = ascii ''session-1''"
  "uuid4_id (sample_env reply) = ascii ''result-1''"
  "utcnow (sample_env reply) = 1700000000"
  "http_exception_str (sample_env reply) = (\<lambda>code detail. detail)"
  by (simp_all add: sample_env_def)

lemma sample_pdf_text:
  "extract_text_from_pdf (sample_env reply) two_page_pdf = Inr [72, 10, 105, 10]"
  "extract_text_from_pdf (sample_env reply) zero_page_pdf = Inr []"
  "extract_text_from_pdf (sample_env reply) blank_page_pdf = Inr [32, 10]"
  "extract_text_from_pdf (sample_env reply) []
     = Inl (HTTPException 400 (ascii ''Failed to extract text from PDF''))"
  by (simp_all add: extract_text_from_pdf_def sample_pdf_pages_def pdf_header_def
      two_page_pdf_def zero_page_pdf_def blank_page_pdf_def)

lemma pdf_type_allowed: "ascii ''application/pdf'' \<in> set allowed_types"
  by (simp add: allowed_types_def)

lemma pdf_upload_sel [simp]:
  "file_size (pdf_upload declared_size payload) = declared_size"
  "content_type (pdf_upload declared_size payload) = Some (ascii ''application/pdf'')"
  "file_read (pdf_upload declared_size payload) = Inr payload"
  by (simp_all add: pdf_upload_def)

lemma fst_analyze_document:
  "fst (analyze_document env file) = fst (analyze_document_try env file)"
  by (simp add: analyze_document_def split: prod.splits sum.splits exn.splits)

lemma analyze_document_http:
  "analyze_document_try env file = (trace, Inl (HTTPException code detail))
     \<Longrightarrow> analyze_document env file = (trace, Inl (HTTPException code detail))"
  by (simp add: analyze_document_def)

lemma analyze_document_ok:
  "analyze_document_try env file = (trace, Inr r) \<Longrightarrow> analyze_document env file = (trace, Inr r)"
  by (simp add: analyze_document_def)

lemma type_guard:
  "(case content_type file of None \<Rightarrow> True | Some t \<Rightarrow> t \<notin> set allowed_types)
     = (content_type file \<notin> Some ` set allowed_types)"
  by (auto split: option.splits)

lemma try_blank_text:
  assumes "within_size_limit file"
    and "content_type file \<in> Some ` set allowed_types"
    and "file_read file = Inr content"
    and "extract_text_by_type env (content_type file) content = (call, Inr text)"
    and "\<forall>c \<in> set text. isspace c"
  shows "analyze_document_try env file
           = ([ReadFile, call],
              Inl (HTTPException 400 (ascii ''No text could be extracted from the document'')))"
  using assms
  by (simp add: analyze_document_try_def size_guard type_guard strip_empty)

lemma extract_call:
  "fst (extract_text_by_type env ctype content) \<in> {ExtractPdf content, ExtractImage content}"
  by (simp add: extract_text_by_type_def)

text \<open>
  Claim C6. When the request passes the size and type checks and the text extracted from
  it is empty or all whitespace, the request is rejected with the empty-text error
  (HTTP 400); the trace holds the read and the text extraction only, so no message is
  sent to the field-extraction service.
\<close>

theorem blank_text_rejected_without_extraction_call:
  assumes "within_size_limit file"
    and "content_type file \<in> Some ` set allowed_types"
    and "file_read file = Inr content"
    and "extract_text_by_type env (content_type file) content = (call, Inr text)"
    and "\<forall>c \<in> set text. isspace c"
  shows "analyze_document env file
           = ([ReadFile, call],
              Inl (HTTPException 400 (ascii ''No text could be extracted from the document'')))
         \<and> call \<in> {ExtractPdf content, ExtractImage content}
         \<and> (\<forall>chat message. SendMessage chat message \<notin> set (fst (analyze_document env file)))"
proof -
  have r: "analyze_document env file
      = ([ReadFile, call],
         Inl (HTTPException 400 (ascii ''No text could be extracted from the document'')))"
    using assms by (intro analyze_document_http try_blank_text)
  have c: "call \<in> {ExtractPdf content, ExtractImage content}"
    using extract_call [of env "content_type file" content] assms(4) by simp
  from c have "\<forall>chat message. SendMessage chat message \<notin> set [ReadFile, call]"
    by auto
  with r c show ?thesis by simp
qed

theorem blank_text_rejected_without_extraction_call_witness:
  "analyze_document (sample_env sample_reply) (pdf_upload (Some 5) blank_page_pdf)
     = ([ReadFile, ExtractPdf blank_page_pdf],
        Inl (HTTPException 400 (ascii ''No text could be extracted from the document'')))"
proof -
  have a: "within_size_limit (pdf_upload (Some 5) blank_page_pdf)"
    by (simp add: within_size_limit_def)
  have b: "content_type (pdf_upload (Some 5) blank_page_pdf) \<in> Some ` set allowed_types"
    using pdf_type_allowed by simp
  have c: "file_read (pdf_upload (Some 5) blank_page_pdf) = Inr blank_page_pdf"
    by simp
  have d: "extract_text_by_type (sample_env sample_reply)
             (content_type (pdf_upload (Some 5) blank_page_pdf)) blank_page_pdf
           = (ExtractPdf blank_page_pdf, Inr [32, 10])"
    by (simp add: extract_text_by_type_def sample_pdf_text)
  have e: "\<forall>c \<in> set [32, 10 :: nat]. isspace c"
    by (simp add: isspace_def)
  from blank_text_rejected_without_extraction_call [OF a b c d e] show ?thesis
    by simp
qed

lemma size_rejection:
  "\<not> within_size_limit file \<Longrightarrow>
     analyze_document env file
       = ([], Inl (HTTPException 400 (ascii ''File size exceeds 10MB limit'')))"
  by (simp add: analyze_document_def analyze_document_try_def size_guard)

lemma type_rejection:
  "within_size_limit file \<Longrightarrow> content_type file \<notin> Some ` set allowed_types \<Longrightarrow>
     analyze_document env file
       = ([], Inl (HTTPException 400
                (ascii ''Unsupported file type. Please upload PDF or image files.'')))"
  by (simp add: analyze_document_def analyze_document_try_def size_guard type_guard)

lemma trace_after_checks:
  assumes "within_size_limit file"
    and "content_type file \<in> Some ` set allowed_types"
  shows "fst (analyze_document env file) \<noteq> []"
    and "file_read file = Inr content \<Longrightarrow>
           take 2 (fst (analyze_document env file))
             = [ReadFile, fst (extract_text_by_type env (content_type file) content)]"
  using assms
  by (simp_all add: fst_analyze_document analyze_document_try_def size_guard type_guard
      split: sum.splits prod.splits)

lemma try_ignores_declared_size:
  assumes "within_size_limit file" and "within_size_limit (file\<lparr>file_size := declared\<rparr>)"
  shows "analyze_document_try env (file\<lparr>file_size := declared\<rparr>) = analyze_document_try env file"
proof -
  have g: "(case file_size (file\<lparr>file_size := declared\<rparr>) of None \<Rightarrow> False
            | Some n \<Rightarrow> n \<noteq> 0 \<and> n > 10 * 1024 * 1024) = False"
    using assms(2) size_guard [of "file\<lparr>file_size := declared\<rparr>"] by simp
  have h: "(case file_size file of None \<Rightarrow> False
            | Some n \<Rightarrow> n \<noteq> 0 \<and> n > 10 * 1024 * 1024) = False"
    using assms(1) size_guard [of "file"] by simp
  show ?thesis
    unfolding analyze_document_try_def g h by (simp split: sum.splits)
qed

lemma within_size_limit_iff:
  "within_size_limit file = (\<not> (\<exists>n. file_size file = Some n \<and> 10 * 1024 * 1024 < n))"
  by (auto simp add: within_size_limit_def split: option.splits)

text \<open>
  Claim C10. The size rejection is returned exactly when a declared size is present and
  greater than 10 MiB. When the declared size is unavailable or zero the size check has
  no effect, whatever the length of the payload: the outcome is the one of the same
  upload with a small declared size, an unlisted media type gets the type error, and a
  listed one has its payload read and handed to the text extraction.
\<close>

theorem size_check_needs_declared_size:
  "(analyze_document env file
      = ([], Inl (HTTPException 400 (ascii ''File size exceeds 10MB limit''))))
     = (\<exists>n. file_size file = Some n \<and> 10 * 1024 * 1024 < n)
   \<and> ((file_size file = None \<or> file_size file = Some 0) \<longrightarrow>
        analyze_document env file = analyze_document env (file\<lparr>file_size := Some 1\<rparr>)
        \<and> (content_type file \<notin> Some ` set allowed_types \<longrightarrow>
             analyze_document env file
               = ([], Inl (HTTPException 400
                        (ascii ''Unsupported file type. Please upload PDF or image files.''))))
        \<and> (content_type file \<in> Some ` set allowed_types \<longrightarrow> file_read file = Inr content \<longrightarrow>
             take 2 (fst (analyze_document env file))
               = [ReadFile, fst (extract_text_by_type env (content_type file) content)]))"
proof (intro conjI impI)
  show "(analyze_document env file
      = ([], Inl (HTTPException 400 (ascii ''File size exceeds 10MB limit''))))
     = (\<exists>n. file_size file = Some n \<and> 10 * 1024 * 1024 < n)"
  proof (cases "within_size_limit file")
    case False
    then show ?thesis
      using size_rejection [of "file" env] by (simp add: within_size_limit_iff)
  next
    case True
    have "analyze_document env file
            \<noteq> ([], Inl (HTTPException 400 (ascii ''File size exceeds 10MB limit'')))"
    proof (cases "content_type file \<in> Some ` set allowed_types")
      case True
      with \<open>within_size_limit file\<close> have "fst (analyze_document env file) \<noteq> []"
        by (rule trace_after_checks(1))
      then show ?thesis by auto
    next
      case False
      with \<open>within_size_limit file\<close> show ?thesis
        using messages_distinct by (simp add: type_rejection)
    qed
    with True show ?thesis
      by (simp add: within_size_limit_iff)
  qed
next
  assume a: "file_size file = None \<or> file_size file = Some 0"
  then have w: "within_size_limit file"
    by (auto simp add: within_size_limit_def)
  have w': "within_size_limit (file\<lparr>file_size := Some 1\<rparr>)"
    by (simp add: within_size_limit_def)
  from w w' show "analyze_document env file = analyze_document env (file\<lparr>file_size := Some 1\<rparr>)"
    by (simp add: analyze_document_def try_ignores_declared_size)
  {
    assume "content_type file \<notin> Some ` set allowed_types"
    with w show "analyze_document env file
               = ([], Inl (HTTPException 400
                        (ascii ''Unsupported file type. Please upload PDF or image files.'')))"
      by (rule type_rejection)
  }
  {
    assume "content_type file \<in> Some ` set allowed_types" and "file_read file = Inr content"
    with w show "take 2 (fst (analyze_document env file))
               = [ReadFile, fst (extract_text_by_type env (content_type file) content)]"
      by (simp add: trace_after_checks(2))
  }
qed

theorem size_check_needs_declared_size_witness:
  "analyze_document (sample_env sample_reply) (pdf_upload None two_page_pdf)
     \<noteq> ([], Inl (HTTPException 400 (ascii ''File size exceeds 10MB limit'')))
   \<and> analyze_document (sample_env sample_reply) (pdf_upload (Some 0) two_page_pdf)
     = analyze_document (sample_env sample_reply) (pdf_upload (Some 1) two_page_pdf)
   \<and> take 2 (fst (analyze_document (sample_env sample_reply) (pdf_upload (Some 0) two_page_pdf)))
     = [ReadFile, ExtractPdf two_page_pdf]"
proof -
  note t0 = size_check_needs_declared_size [of "sample_env sample_reply"
      "pdf_upload None two_page_pdf" two_page_pdf]
  note t1 = size_check_needs_declared_size [of "sample_env sample_reply"
      "pdf_upload (Some 0) two_page_pdf" two_page_pdf]
  have u: "(pdf_upload (Some 0) two_page_pdf)\<lparr>file_size := Some 1\<rparr> = pdf_upload (Some 1) two_page_pdf"
    by (simp add: pdf_upload_def)
  have c: "content_type (pdf_upload (Some 0) two_page_pdf) \<in> Some ` set allowed_types"
    using pdf_type_allowed by simp
  have x: "fst (extract_text_by_type (sample_env sample_reply)
             (content_type (pdf_upload (Some 0) two_page_pdf)) two_page_pdf)
           = ExtractPdf two_page_pdf"
    by (simp add: extract_text_by_type_def)
  from t0 [THEN conjunct1] have c1: "analyze_document (sample_env sample_reply) (pdf_upload None two_page_pdf)
     \<noteq> ([], Inl (HTTPException 400 (ascii ''File size exceeds 10MB limit'')))"
    by simp
  have s0: "file_size (pdf_upload (Some 0) two_page_pdf) = None
      \<or> file_size (pdf_upload (Some 0) two_page_pdf) = Some 0"
    by simp
  have r: "file_read (pdf_upload (Some 0) two_page_pdf) = Inr two_page_pdf"
    by simp
  from t1 s0 have "analyze_document (sample_env sample_reply) (pdf_upload (Some 0) two_page_pdf)
     = analyze_document (sample_env sample_reply)
         ((pdf_upload (Some 0) two_page_pdf)\<lparr>file_size := Some 1\<rparr>)"
    by blast
  then have c2: "analyze_document (sample_env sample_reply) (pdf_upload (Some 0) two_page_pdf)
     = analyze_document (sample_env sample_reply) (pdf_upload (Some 1) two_page_pdf)"
    by (simp only: u)
  from t1 s0 c r have
    "take 2 (fst (analyze_document (sample_env sample_reply) (pdf_upload (Some 0) two_page_pdf)))
     = [ReadFile, fst (extract_text_by_type (sample_env sample_reply)
             (content_type (pdf_upload (Some 0) two_page_pdf)) two_page_pdf)]"
    by blast
  then have c3:
    "take 2 (fst (analyze_document (sample_env sample_reply) (pdf_upload (Some 0) two_page_pdf)))
     = [ReadFile, ExtractPdf two_page_pdf]"
    by (simp only: x)
  from c1 c2 c3 show ?thesis by blast
qed

section \<open>Properties of the field extraction\<close>





section \<open>Properties of the text extraction\<close>

lemma pdf_pages_loop_all_ok:
  "\<forall>page \<in> set pages. \<not> isl (ext page) \<Longrightarrow>
     pdf_pages_loop ext pages text
       = Inr (text @ concat (map (\<lambda>page. projr (ext page) @ [10]) pages))"
proof (induction pages arbitrary: "text")
  case Nil
  then show ?case by simp
next
  case (Cons page pages)
  then obtain t where t: "ext page = Inr t"
    by (cases "ext page") auto
  with Cons show ?case by simp
qed

lemma pdf_pages_loop_raises:
  "\<exists>page \<in> set pages. isl (ext page) \<Longrightarrow> isl (pdf_pages_loop ext pages text)"
proof (induction pages arbitrary: "text")
  case Nil
  then show ?case by simp
next
  case (Cons page pages)
  then show ?case
    by (cases "ext page") auto
qed

text \<open>
  Claim C7, amended. The PDF extraction fails with the extraction error (HTTP 400) exactly
  when the reader raises on the byte stream or the text extraction of a page raises.
  Otherwise it returns the text of every page followed by a newline, concatenated in page
  order; for a document that the reader parses with zero pages this is the empty text,
  not an error.
\<close>

theorem extract_text_from_pdf_result:
  "extract_text_from_pdf env pdf_bytes =
     (case PdfReader_pages env pdf_bytes of
        Inl e \<Rightarrow> Inl (HTTPException 400 (ascii ''Failed to extract text from PDF''))
      | Inr pages \<Rightarrow>
          if \<exists>page \<in> set pages. isl (extract_text env page)
          then Inl (HTTPException 400 (ascii ''Failed to extract text from PDF''))
          else Inr (concat (map (\<lambda>page. projr (extract_text env page) @ [10]) pages)))"
proof (cases "PdfReader_pages env pdf_bytes")
  case (Inl e)
  then show ?thesis
    by (simp add: extract_text_from_pdf_def)
next
  case (Inr pages)
  show ?thesis
  proof (cases "\<exists>page \<in> set pages. isl (extract_text env page)")
    case True
    then have "isl (pdf_pages_loop (extract_text env) pages [])"
      by (rule pdf_pages_loop_raises)
    then obtain e where "pdf_pages_loop (extract_text env) pages [] = Inl e"
      by (cases "pdf_pages_loop (extract_text env) pages []") auto
    with Inr True show ?thesis
      by (simp add: extract_text_from_pdf_def)
  next
    case False
    then have "pdf_pages_loop (extract_text env) pages []
        = Inr ([] @ concat (map (\<lambda>page. projr (extract_text env page) @ [10]) pages))"
      by (intro pdf_pages_loop_all_ok) simp
    with Inr False show ?thesis
      by (simp add: extract_text_from_pdf_def)
  qed
qed

theorem extract_text_from_pdf_result_witness:
  "extract_text_from_pdf (sample_env sample_reply) two_page_pdf = Inr [72, 10, 105, 10]
   \<and> extract_text_from_pdf (sample_env sample_reply) [0x48, 0x69]
       = Inl (HTTPException 400 (ascii ''Failed to extract text from PDF''))"
proof -
  have p: "sample_pdf_pages two_page_pdf = Inr [[72], [105]]"
    by (simp add: sample_pdf_pages_def two_page_pdf_def pdf_header_def)
  have q: "sample_pdf_pages [0x48, 0x69] = Inl (PyException (ascii ''EOF marker not found''))"
    by (simp add: sample_pdf_pages_def pdf_header_def)
  have a: "extract_text_from_pdf (sample_env sample_reply) two_page_pdf = Inr [72, 10, 105, 10]"
    using extract_text_from_pdf_result [of "sample_env sample_reply" two_page_pdf]
    by (simp add: p)
  have b: "extract_text_from_pdf (sample_env sample_reply) [0x48, 0x69]
       = Inl (HTTPException 400 (ascii ''Failed to extract text from PDF''))"
    using extract_text_from_pdf_result [of "sample_env sample_reply" "[0x48, 0x69]"]
    by (simp add: q)
  from a b show ?thesis by blast
qed

theorem zero_page_pdf_counterexample:
  "PdfReader_pages (sample_env sample_reply) zero_page_pdf = Inr []
   \<and> extract_text_from_pdf (sample_env sample_reply) zero_page_pdf = Inr []
   \<and> PdfReader_pages (sample_env sample_reply) two_page_pdf = Inr [[72], [105]]
   \<and> extract_text_from_pdf (sample_env sample_reply) two_page_pdf = Inr [72, 10, 105, 10]
   \<and> extract_text_from_pdf (sample_env sample_reply) two_page_pdf \<noteq> Inr [72, 10, 105]"
proof -
  have "sample_pdf_pages zero_page_pdf = Inr []"
    and "sample_pdf_pages two_page_pdf = Inr [[72], [105]]"
    by (simp_all add: sample_pdf_pages_def zero_page_pdf_def two_page_pdf_def pdf_header_def)
  then show ?thesis
    by (simp add: sample_pdf_text)
qed

section \<open>Properties of the reply parser\<close>

lemma parse_response_direct:
  "json_loads env response = Inr result \<Longrightarrow> parse_response env response = Inr result"
  by (simp add: parse_response_def)

lemma parse_response_no_braces:
  "json_loads env response = Inl (JSONDecodeError msg) \<Longrightarrow> re_search_braces response = None
     \<Longrightarrow> parse_response env response = Inr (PyDict empty_result)"
  by (simp add: parse_response_def)

lemma parse_response_braces:
  "json_loads env response = Inl (JSONDecodeError msg)
     \<Longrightarrow> re_search_braces response = Some json_match
     \<Longrightarrow> parse_response env response = json_loads env json_match"
  by (simp add: parse_response_def split: sum.splits)

lemma sample_replies_differ:
  "prose_reply \<noteq> sample_reply"
  "malformed_reply \<noteq> sample_reply"
  "wrapped_reply \<noteq> sample_reply"
  "ascii ''{effective_date: unknown}'' \<noteq> sample_reply"
  by (simp_all add: prose_reply_def malformed_reply_def wrapped_reply_def sample_reply_def
      ascii_def)

lemma sample_not_match:
  "prose_reply \<noteq> ascii ''{effective_date: unknown}''"
  "malformed_reply \<noteq> ascii ''{effective_date: unknown}''"
  "wrapped_reply \<noteq> ascii ''{effective_date: unknown}''"
  by (simp_all add: prose_reply_def malformed_reply_def wrapped_reply_def ascii_def)

lemma sample_braces:
  "re_search_braces prose_reply = None"
  "re_search_braces malformed_reply = Some (ascii ''{effective_date: unknown}'')"
  by (simp_all add: re_search_braces_def prose_reply_def malformed_reply_def ascii_def)

lemma sample_braces_wrapped: "re_search_braces wrapped_reply = Some sample_reply"
  by (simp add: re_search_braces_def wrapped_reply_def sample_reply_def ascii_def)

lemma sample_parse:
  "parse_response (sample_env reply) sample_reply = Inr (PyDict sample_fields)"
  "parse_response (sample_env reply) wrapped_reply = Inr (PyDict sample_fields)"
  "parse_response (sample_env reply) prose_reply = Inr (PyDict empty_result)"
  "parse_response (sample_env reply) malformed_reply
     = Inl (JSONDecodeError (ascii
         ''Expecting property name enclosed in double quotes: line 1 column 2 (char 1)''))"
  by (simp_all add: parse_response_def sample_json_loads_def sample_replies_differ
      sample_braces sample_braces_wrapped sample_not_match)

text \<open>
  Claim C1, at a reply that is not JSON and whose brace-delimited part is not JSON either.
  The first \<^verbatim>\<open>json.loads\<close> raises, the search finds \<^verbatim>\<open>{effective_date: unknown}\<close>, the second
  \<^verbatim>\<open>json.loads\<close> raises inside the handler, and the function raises an HTTP 500 instead of
  returning the map with six null fields. A reply without braces does get that map.
\<close>

theorem malformed_braces_reply_raises:
  "re_search_braces malformed_reply = Some (ascii ''{effective_date: unknown}'')
   \<and> json_loads (sample_env malformed_reply) malformed_reply
       = Inl (JSONDecodeError (ascii ''Expecting value: line 1 column 1 (char 0)''))
   \<and> json_loads (sample_env malformed_reply) (ascii ''{effective_date: unknown}'')
       = Inl (JSONDecodeError (ascii
           ''Expecting property name enclosed in double quotes: line 1 column 2 (char 1)''))
   \<and> analyze_document_with_openai (sample_env malformed_reply) (ascii ''Policy'')
        (ascii ''session-1'')
       = ([SendMessage sample_chat (user_message_prefix @ ascii ''Policy'')],
          Inl (HTTPException 500
                 (ascii ''Failed to analyze document: '' @ ascii
           ''Expecting property name enclosed in double quotes: line 1 column 2 (char 1)'')))
   \<and> analyze_document_with_openai (sample_env prose_reply) (ascii ''Policy'')
        (ascii ''session-1'')
       = ([SendMessage sample_chat (user_message_prefix @ ascii ''Policy'')],
          Inr (PyDict empty_result))"
proof -
  have t: "take 4000 (ascii ''Policy'') = ascii ''Policy''"
    by (simp add: ascii_def)
  show ?thesis
    by (simp add: analyze_document_with_openai_def analyze_document_with_openai_try_def
        sample_parse sample_braces sample_json_loads_def sample_replies_differ
        sample_not_match t sample_chat_def str_exn_def Let_def)
qed

section \<open>Properties of the assembled result\<close>

lemma validate_str_or_none:
  "is_str_or_none (dict_get d (ascii field))
     \<Longrightarrow> validate_optional_str env (dict_get d (ascii field)) = Inr (field_value d field)"
  by (cases "dict_get d (ascii field)")
    (simp_all add: is_str_or_none_def validate_optional_str_def field_value_def)

lemma create_result_raw_field_map:
  assumes "is_raw_field_map d"
  shows "create_result env d notes
     = Inr \<lparr>id_field = uuid4_id env,
            effective_date = field_value d ''effective_date'',
            insured_party = field_value d ''insured_party'',
            underwriter = field_value d ''underwriter'',
            legal_description = field_value d ''legal_description'',
            exceptions = field_value d ''exceptions'',
            policy_amount = field_value d ''policy_amount'',
            compliance_notes = notes,
            processing_status = ascii ''completed'',
            timestamp = utcnow env\<rparr>"
proof -
  from assms have
    "is_str_or_none (dict_get d (ascii ''effective_date''))"
    "is_str_or_none (dict_get d (ascii ''insured_party''))"
    "is_str_or_none (dict_get d (ascii ''underwriter''))"
    "is_str_or_none (dict_get d (ascii ''legal_description''))"
    "is_str_or_none (dict_get d (ascii ''exceptions''))"
    "is_str_or_none (dict_get d (ascii ''policy_amount''))"
    by (simp_all add: is_raw_field_map_def field_names_def)
  then show ?thesis
    by (simp add: create_result_def validate_str_or_none)
qed

lemma notes_end_with_reviewed:
  "generate_compliance_notes d \<noteq> [] \<and> last (generate_compliance_notes d) = note_reviewed"
  by (simp add: generate_compliance_notes_def Let_def)

lemma try_accepted_text:
  assumes "within_size_limit file"
    and "content_type file \<in> Some ` set allowed_types"
    and "file_read file = Inr content"
    and "extract_text_by_type env (content_type file) content = (call, Inr extracted_text)"
    and "strip extracted_text \<noteq> []"
  shows "analyze_document_try env file
           = ([ReadFile, call] @ fst (analyze_text env extracted_text),
              snd (analyze_text env extracted_text))"
  using assms
  by (simp add: analyze_document_try_def size_guard type_guard split: prod.splits)

text \<open>
  Claim C4. When the request passes the size and type checks, its extracted text is not
  blank and the field extraction returns a RawFieldMap, the endpoint returns a result
  whose six field slots hold the corresponding entries of the map (nothing for an absent
  or null entry), whose status is \<^verbatim>\<open>completed\<close>, and whose notes are those of the generator:
  a non-empty sequence ending with the generic reviewed note.
\<close>

theorem analysis_result_shape:
  assumes "within_size_limit file"
    and "content_type file \<in> Some ` set allowed_types"
    and "file_read file = Inr content"
    and "extract_text_by_type env (content_type file) content = (call, Inr extracted_text)"
    and "strip extracted_text \<noteq> []"
    and "analyze_document_with_openai env extracted_text (uuid4_session env)
           = (trace, Inr (PyDict d))"
    and "is_raw_field_map d"
  shows "analyze_document env file
           = ([ReadFile, call] @ trace,
              Inr \<lparr>id_field = uuid4_id env,
                   effective_date = field_value d ''effective_date'',
                   insured_party = field_value d ''insured_party'',
                   underwriter = field_value d ''underwriter'',
                   legal_description = field_value d ''legal_description'',
                   exceptions = field_value d ''exceptions'',
                   policy_amount = field_value d ''policy_amount'',
                   compliance_notes = generate_compliance_notes d,
                   processing_status = ascii ''completed'',
                   timestamp = utcnow env\<rparr>)
         \<and> generate_compliance_notes d \<noteq> []
         \<and> last (generate_compliance_notes d) = note_reviewed"
proof -
  have "analyze_text env extracted_text
      = (trace, create_result env d (generate_compliance_notes d))"
    using assms(6) by (simp add: analyze_text_def assemble_result_def)
  with assms(7) have "analyze_text env extracted_text
      = (trace,
         Inr \<lparr>id_field = uuid4_id env,
              effective_date = field_value d ''effective_date'',
              insured_party = field_value d ''insured_party'',
              underwriter = field_value d ''underwriter'',
              legal_description = field_value d ''legal_description'',
              exceptions = field_value d ''exceptions'',
              policy_amount = field_value d ''policy_amount'',
              compliance_notes = generate_compliance_notes d,
              processing_status = ascii ''completed'',
              timestamp = utcnow env\<rparr>)"
    by (simp add: create_result_raw_field_map)
  with assms(1-5) show ?thesis
    by (simp add: try_accepted_text analyze_document_ok notes_end_with_reviewed)
qed

lemma sample_fields_raw: "is_raw_field_map sample_fields"
  by (simp add: is_raw_field_map_def field_names_def is_str_or_none_def sample_fields_get)

lemma sample_fields_values:
  "field_value sample_fields ''effective_date'' = Some (ascii ''January 15, 2024'')"
  "field_value sample_fields ''insured_party'' = None"
  "field_value sample_fields ''underwriter''
     = Some (ascii ''First American Title Insurance Company'')"
  "field_value sample_fields ''legal_description'' = None"
  "field_value sample_fields ''exceptions'' = Some (ascii ''1. Easements of record'')"
  "field_value sample_fields ''policy_amount'' = Some (ascii ''$450,000.00'')"
  by (simp_all add: field_value_def sample_fields_get)

lemma sample_notes:
  "generate_compliance_notes sample_fields
     = [note_legal_description, note_exceptions_review, note_underwriter, note_reviewed]"
  by (simp add: generate_compliance_notes_def sample_fields_get)

lemma sample_openai:
  "analyze_document_with_openai (sample_env sample_reply) [72, 10, 105, 10] (ascii ''session-1'')
     = ([SendMessage sample_chat (user_message_prefix @ [72, 10, 105, 10])],
        Inr (PyDict sample_fields))"
  by (simp add: analyze_document_with_openai_def analyze_document_with_openai_try_def
      sample_parse sample_chat_def Let_def)

theorem analysis_result_shape_witness:
  "analyze_document (sample_env sample_reply) (pdf_upload (Some 6) two_page_pdf)
     = ([ReadFile, ExtractPdf two_page_pdf,
         SendMessage sample_chat (user_message_prefix @ [72, 10, 105, 10])],
        Inr \<lparr>id_field = ascii ''result-1'',
             effective_date = Some (ascii ''January 15, 2024''),
             insured_party = None,
             underwriter = Some (ascii ''First American Title Insurance Company''),
             legal_description = None,
             exceptions = Some (ascii ''1. Easements of record''),
             policy_amount = Some (ascii ''$450,000.00''),
             compliance_notes = [note_legal_description, note_exceptions_review,
                                 note_underwriter, note_reviewed],
             processing_status = ascii ''completed'',
             timestamp = 1700000000\<rparr>)"
proof -
  have a: "within_size_limit (pdf_upload (Some 6) two_page_pdf)"
    by (simp add: within_size_limit_def)
  have b: "content_type (pdf_upload (Some 6) two_page_pdf) \<in> Some ` set allowed_types"
    using pdf_type_allowed by simp
  have c: "file_read (pdf_upload (Some 6) two_page_pdf) = Inr two_page_pdf"
    by simp
  have d: "extract_text_by_type (sample_env sample_reply)
             (content_type (pdf_upload (Some 6) two_page_pdf)) two_page_pdf
           = (ExtractPdf two_page_pdf, Inr [72, 10, 105, 10])"
    by (simp add: extract_text_by_type_def sample_pdf_text)
  have e: "strip [72, 10, 105, 10] \<noteq> []"
    by (simp add: strip_empty isspace_def)
  have f: "analyze_document_with_openai (sample_env sample_reply) [72, 10, 105, 10]
             (uuid4_session (sample_env sample_reply))
           = ([SendMessage sample_chat (user_message_prefix @ [72, 10, 105, 10])],
              Inr (PyDict sample_fields))"
    by (simp add: sample_openai)
  from analysis_result_shape [OF a b c d e f sample_fields_raw] show ?thesis
    by (simp add: sample_fields_values sample_notes)
qed

end
